theory Spec2Isabelle
  imports Main "HOL-Library.Word"
begin

section \<open>Python values, exceptions and containers\<close>

text \<open>
  The values that reach the orchestrator through \<^verbatim>\<open>**config\<close>, through the strategy's
  parameters and through the constants of \<^verbatim>\<open>utils/config.py\<close>. A float is kept as mantissa
  and exponent: no arithmetic is done on it here, it is only stored and printed.
\<close>

datatype pyval =
    PNone
  | PStr string
  | PInt int
  | PFloat int int
  | PList "pyval list"
  | PDict "(string \<times> pyval) list"

text \<open>
  The exceptions of \<^verbatim>\<open>backtest.py\<close> and \<^verbatim>\<open>strategy.py\<close>. \<open>Exception e\<close> is
  \<^verbatim>\<open>raise Exception(e)\<close> of \<^verbatim>\<open>Strategy.I\<close>; \<open>External\<close> is whatever a collaborator raises;
  \<open>Interrupt\<close> is an exception that is not under \<^verbatim>\<open>Exception\<close> (\<^verbatim>\<open>KeyboardInterrupt\<close>,
  \<^verbatim>\<open>SystemExit\<close>), which \<^verbatim>\<open>except Exception\<close> lets through.
\<close>

datatype exn =
    TypeError
  | IndexError
  | KeyError
  | AttributeError
  | AssertionError
  | ShapeError
  | Exception exn
  | External string
  | Interrupt

type_synonym date = nat
type_synonym ref = nat

text \<open>
  An \<^verbatim>\<open>OrderedDict\<close> (and every \<^verbatim>\<open>dict\<close> of Python 3.7 on) is an association list in
  insertion order. \<^verbatim>\<open>d.update({k: v})\<close> overwrites the value of a key that is present and
  leaves it where it stands, and appends a key that is new.
\<close>

fun dict_update :: "('k \<times> 'v) list \<Rightarrow> 'k \<Rightarrow> 'v \<Rightarrow> ('k \<times> 'v) list" where
  "dict_update [] k v = [(k, v)]"
| "dict_update ((k', v') # kvs) k v =
     (if k' = k then (k, v) # kvs else (k', v') # dict_update kvs k v)"

text \<open>\<^verbatim>\<open>{**a, **b}\<close>: the entries of \<open>a\<close>, updated with those of \<open>b\<close> one after the other.\<close>

definition dict_merge :: "('k \<times> 'v) list \<Rightarrow> ('k \<times> 'v) list \<Rightarrow> ('k \<times> 'v) list" where
  "dict_merge a b = foldl (\<lambda>acc kv. dict_update acc (fst kv) (snd kv)) a b"

definition dict_values :: "('k \<times> 'v) list \<Rightarrow> 'v list" where
  "dict_values d = map snd d"

definition dict_get :: "('k \<times> 'v) list \<Rightarrow> 'k \<Rightarrow> 'v option" where
  "dict_get d k = map_of d k"

text \<open>
  \<^verbatim>\<open>str.upper()\<close> on ASCII letters; every other character is left as it is (Python also
  maps letters outside ASCII, which tickers here do not use).
\<close>

definition upper_char :: "char \<Rightarrow> char" where
  "upper_char c =
     (case map_of (zip ''abcdefghijklmnopqrstuvwxyz'' ''ABCDEFGHIJKLMNOPQRSTUVWXYZ'') c of
        Some u \<Rightarrow> u
      | None \<Rightarrow> c)"

definition py_upper :: "string \<Rightarrow> string" where
  "py_upper s = map upper_char s"

section \<open>Lines and data objects\<close>

text \<open>
  Modelled from the spec: \<^verbatim>\<open>Line\<close>, \<^verbatim>\<open>Base\<close> and \<^verbatim>\<open>Asset\<close> live in
  \<^verbatim>\<open>utils/bases.py\<close>, which is not among the sources. A Line is an array aligned to the
  date index and a cursor; offset 0 reads the value under the cursor; advancing moves the
  cursor one step and fails when the cursor already stands on the last position. Where the
  cursor of a fresh Line stands is said nowhere, so it is a parameter (\<open>line_start\<close> below).
\<close>

record 'a line =
  array :: "'a list"
  cursor :: nat

definition Line_new :: "nat \<Rightarrow> 'a list \<Rightarrow> 'a line" where
  "Line_new start xs = \<lparr>array = xs, cursor = start\<rparr>"

definition Line_at0 :: "'a line \<Rightarrow> exn + 'a" where
  "Line_at0 l = (if cursor l < length (array l) then Inr (array l ! cursor l) else Inl IndexError)"

definition Line_next :: "'a line \<Rightarrow> exn + 'a line" where
  "Line_next l =
     (if cursor l + 1 < length (array l) then Inr (l\<lparr>cursor := cursor l + 1\<rparr>)
      else Inl IndexError)"

datatype pytype = Base | Asset | Hedge | Other_type string

text \<open>
  A \<^verbatim>\<open>Base\<close> or \<^verbatim>\<open>Asset\<close> object: its ticker, its dynamic type, the frame it was built
  from, the commission keywords, and its Lines, which share one index and one cursor.
\<close>

record 'd data_obj =
  d_ticker :: string
  d_type :: pytype
  d_frame :: 'd
  d_comm :: "(string \<times> pyval) list"
  d_lines :: "date line"

definition data_next :: "'d data_obj \<Rightarrow> exn + 'd data_obj" where
  "data_next d =
     (case Line_next (d_lines d) of
        Inl e \<Rightarrow> Inl e
      | Inr l \<Rightarrow> Inr (d\<lparr>d_lines := l\<rparr>))"

section \<open>The orchestrator's state\<close>

text \<open>The keyword arguments \<^verbatim>\<open>**config\<close>; \<^verbatim>\<open>config.get\<close> gives \<^verbatim>\<open>None\<close> for a missing key.\<close>

record config =
  factor :: "string option"
  market :: "string option"
  asset :: "string option"
  hedge :: "string option"
  base :: "string option"
  hbase :: "string option"
  vertices :: "int list option"

text \<open>
  Modelled from the spec: the constructors of \<^verbatim>\<open>Pipeline\<close> (\<^verbatim>\<open>pipeline.py\<close>, absent) and
  of the \<^verbatim>\<open>Strategy\<close> subclasses keep the references they are handed. A collaborator
  object is its class name and the registries it holds; the clock and the Broker are
  single objects of the orchestrator, so holding them needs no address.
\<close>

record pipeline_obj =
  p_class :: string
  p_holidays :: "date list option"
  p_assets :: ref

record strategy_obj =
  s_class :: string
  s_params :: "(string \<times> pyval) list"
  s_bases :: ref
  s_assets :: ref

text \<open>The classes and the calendar handed to the constructors.\<close>

datatype kind = Strategy_kind | Pipeline_kind | Other_kind

record klass =
  k_name :: string
  k_kind :: kind
  k_params :: "(string \<times> pyval) list"

record calendar =
  is_calendar :: bool
  cal_index :: "date list"
  cal_holidays :: "date list"

text \<open>The single row of \<^verbatim>\<open>self.__properties\<close>.\<close>

record properties =
  m_hash :: "(string \<times> pyval) list"
  m_uid :: "128 word"
  m_sdate :: string
  m_edate :: string
  m_updtime :: string
  m_sizing :: pyval
  m_thresh :: pyval
  m_vparam :: pyval
  m_bookname :: string

text \<open>
  The calls the orchestrator makes on its collaborators and on the Lines, in the order it
  makes them. The trace is not a field of the Python object: it records what was called,
  so that the order and the number of calls can be stated.
\<close>

datatype callee = Primary_pipeline | Primary_strategy | Hedge_pipeline | Hedge_strategy

datatype event =
    Main_next
  | Broker_next
  | Data_next ref
  | Beg_of_period
  | End_of_period
  | Init callee
  | Next callee
  | Add_curr ref
  | Add_carry ref
  | Add_market ref

text \<open>
  The \<^verbatim>\<open>Backtest\<close> object. The three registries are dicts in a store (\<open>dicts\<close>), and
  \<open>bases\<close>, \<open>assets\<close>, \<open>hedges\<close> are their addresses: the same addresses are handed to the
  collaborators. Data objects live in \<open>objs\<close>, an object's address being its position;
  a registry maps a ticker to an address. \<open>broker\<close> stands for the Broker's ledger and
  for whatever else the collaborators keep of their own.
\<close>

record ('d, 'w) backtest = config +
  index :: "date list"
  firstdate :: date
  lastdate :: date
  main :: "date line"
  dicts :: "ref \<Rightarrow> (string \<times> ref) list"
  bases :: ref
  assets :: ref
  hedges :: ref
  objs :: "'d data_obj list"
  broker :: 'w
  pipeline :: pipeline_obj
  strategy :: strategy_obj
  hpipeline :: "pipeline_obj option"
  hstrategy :: "strategy_obj option"
  hash :: "(string \<times> pyval) list option"
  uid :: "128 word option"
  properties :: "properties option"
  trace :: "event list"

section \<open>What the orchestrator imports\<close>

text \<open>
  The constants of \<^verbatim>\<open>utils/config.py\<close> (absent), as parameters. \<open>'r\<close> is the type of
  returns: only \<open><\<close> is used on it.
\<close>

record 'r settings =
  DEFAULT_BUFFER :: pyval
  DEFAULT_HEDGE :: string
  DEFAULT_SIZING :: pyval
  DEFAULT_THRESH :: pyval
  DEFAULT_VPARAM :: pyval
  DEFAULT_MAX_LOSS :: 'r
  DEFAULT_VOLATILITY :: pyval
  DEFAULT_CARRY :: string
  DEFAULT_PAIRS :: "string list"
  DEFAULT_ECHO :: bool
  DEFAULT_MARKET :: string

text \<open>
  The library functions and the collaborators' methods (\<^verbatim>\<open>broker.py\<close>, \<^verbatim>\<open>pipeline.py\<close>
  and the user's strategy are not among the sources), as parameters. A collaborator's
  method reads the whole orchestrator and gives back the new \<open>broker\<close> component, and the
  exception it raised if it raised one.
\<close>

record ('d, 'w, 'r) env = "'r settings" +
  line_start :: nat
  fill_OHLC :: "'d \<Rightarrow> 'd"
  py_str :: "(string \<times> pyval) list \<Rightarrow> string"
  uuid3_dns :: "string \<Rightarrow> 128 word"
  isoformat :: "date \<Rightarrow> string"
  now_iso :: string
  Broker_new :: "date list \<Rightarrow> bool \<Rightarrow> 'w"
  broker_next :: "('d, 'w) backtest \<Rightarrow> exn option \<times> 'w"
  beg_of_period :: "('d, 'w) backtest \<Rightarrow> exn option \<times> 'w"
  end_of_period :: "('d, 'w) backtest \<Rightarrow> exn option \<times> 'w"
  cum_return :: "'w \<Rightarrow> 'r"
  broker_df :: "'w \<Rightarrow> pyval"
  broker_rec :: "'w \<Rightarrow> pyval"
  add_curr :: "ref \<Rightarrow> ('d, 'w) backtest \<Rightarrow> exn option \<times> 'w"
  add_carry :: "ref \<Rightarrow> ('d, 'w) backtest \<Rightarrow> exn option \<times> 'w"
  add_market :: "ref \<Rightarrow> ('d, 'w) backtest \<Rightarrow> exn option \<times> 'w"
  pipeline_init :: "pipeline_obj \<Rightarrow> ('d, 'w) backtest \<Rightarrow> exn option \<times> 'w"
  pipeline_next :: "pipeline_obj \<Rightarrow> ('d, 'w) backtest \<Rightarrow> exn option \<times> 'w"
  strategy_init :: "strategy_obj \<Rightarrow> ('d, 'w) backtest \<Rightarrow> exn option \<times> 'w"
  strategy_next :: "strategy_obj \<Rightarrow> ('d, 'w) backtest \<Rightarrow> exn option \<times> 'w"

section \<open>Sequencing\<close>

text \<open>
  An action takes the object and gives back the object as it left it, with its value or
  the exception it raised: what was done before the raise stays done.
\<close>

type_synonym ('s, 'a) action = "'s \<Rightarrow> (exn + 'a) \<times> 's"

definition done_ok :: "('s, unit) action" where
  "done_ok s = (Inr (), s)"

definition then_do :: "('s, unit) action \<Rightarrow> ('s, 'a) action \<Rightarrow> ('s, 'a) action" where
  "then_do m k s =
     (case m s of
        (Inl e, s') \<Rightarrow> (Inl e, s')
      | (Inr u, s') \<Rightarrow> k s')"

definition when_do :: "bool \<Rightarrow> ('s, unit) action \<Rightarrow> ('s, unit) action" where
  "when_do c m = (if c then m else done_ok)"

text \<open>A call on a collaborator: the call is recorded, the Broker component replaced.\<close>

definition call ::
  "event \<Rightarrow> (('d, 'w) backtest \<Rightarrow> exn option \<times> 'w) \<Rightarrow> (('d, 'w) backtest, unit) action" where
  "call ev f s =
     (case f s of
        (r, w) \<Rightarrow>
          (case r of
             Some e \<Rightarrow> (Inl e, s\<lparr>broker := w, trace := trace s @ [ev]\<rparr>)
           | None \<Rightarrow> (Inr (), s\<lparr>broker := w, trace := trace s @ [ev]\<rparr>)))"

section \<open>backtest.py\<close>

subsection \<open>Construction and registration\<close>

text \<open>
  \<^verbatim>\<open>Backtest.__init__\<close>. The three type checks, in the source's order; \<^verbatim>\<open>self.__index[0]\<close>
  raises on an empty index. The three registries are allocated in the order bases, assets,
  hedges; the Pipeline gets the address of the assets, the Strategy those of the bases
  and of the assets.
\<close>

definition Backtest_init ::
  "('d, 'w, 'r) env \<Rightarrow> klass \<Rightarrow> klass \<Rightarrow> calendar \<Rightarrow> config \<Rightarrow> exn + ('d, 'w) backtest" where
  "Backtest_init env strategy_cls pipeline_cls cal cfg =
     (if k_kind strategy_cls \<noteq> Strategy_kind then Inl TypeError
      else if k_kind pipeline_cls \<noteq> Pipeline_kind then Inl TypeError
      else if \<not> is_calendar cal then Inl TypeError
      else if cal_index cal = [] then Inl IndexError
      else Inr
        \<lparr>factor = factor cfg, market = market cfg, asset = asset cfg, hedge = hedge cfg,
         base = base cfg, hbase = hbase cfg, vertices = vertices cfg,
         index = cal_index cal,
         firstdate = hd (cal_index cal),
         lastdate = last (cal_index cal),
         main = Line_new (line_start env) (cal_index cal),
         dicts = (\<lambda>r. []),
         bases = 0, assets = 1, hedges = 2,
         objs = [],
         broker = Broker_new env (cal_index cal) (DEFAULT_ECHO env),
         pipeline =
           \<lparr>p_class = k_name pipeline_cls, p_holidays = Some (cal_holidays cal), p_assets = 1\<rparr>,
         strategy =
           \<lparr>s_class = k_name strategy_cls, s_params = k_params strategy_cls,
            s_bases = 0, s_assets = 1\<rparr>,
         hpipeline = None, hstrategy = None,
         hash = None, uid = None, properties = None,
         trace = []\<rparr>)"


text \<open>
  A new data object is put at the end of \<open>objs\<close> and the registry at address \<open>r\<close> is
  updated in place: \<^verbatim>\<open>self.__bases.update({ticker: base})\<close>.
\<close>

definition register ::
  "ref \<Rightarrow> string \<Rightarrow> 'd data_obj \<Rightarrow> ('d, 'w) backtest \<Rightarrow> ('d, 'w) backtest" where
  "register r ticker ob s =
     s\<lparr>objs := objs s @ [ob],
       dicts := (dicts s)(r := dict_update (dicts s r) ticker (length (objs s)))\<rparr>"

definition new_obj ::
  "('d, 'w, 'r) env \<Rightarrow> pytype \<Rightarrow> string \<Rightarrow> 'd \<Rightarrow> (string \<times> pyval) list \<Rightarrow> date list \<Rightarrow> 'd data_obj" where
  "new_obj env ty ticker data comm idx =
     \<lparr>d_ticker = ticker, d_type = ty, d_frame = data, d_comm = comm,
      d_lines = Line_new (line_start env) idx\<rparr>"

text \<open>\<^verbatim>\<open>add_base\<close>: three tests on the uppercased ticker, each forwarding to its own hook.\<close>

definition add_base ::
  "('d, 'w, 'r) env \<Rightarrow> string \<Rightarrow> 'd \<Rightarrow> (('d, 'w) backtest, unit) action" where
  "add_base env ticker data s =
     (let a = length (objs s) in
      then_do (when_do (py_upper ticker \<in> set (DEFAULT_PAIRS env))
                 (call (Add_curr a) (add_curr env a)))
        (then_do (when_do (py_upper ticker = DEFAULT_CARRY env)
                    (call (Add_carry a) (add_carry env a)))
           (when_do (py_upper ticker = DEFAULT_MARKET env)
              (call (Add_market a) (add_market env a))))
        (register (bases s) ticker (new_obj env Base ticker data [] (index s)) s))"

definition add_asset ::
  "('d, 'w, 'r) env \<Rightarrow> string \<Rightarrow> 'd \<Rightarrow> (string \<times> pyval) list \<Rightarrow> (('d, 'w) backtest, unit) action" where
  "add_asset env ticker data commkwargs s =
     (Inr (),
      register (assets s) ticker
        (new_obj env Asset ticker (fill_OHLC env data) commkwargs (index s)) s)"

definition add_hedge ::
  "('d, 'w, 'r) env \<Rightarrow> string \<Rightarrow> 'd \<Rightarrow> (string \<times> pyval) list \<Rightarrow> (('d, 'w) backtest, unit) action" where
  "add_hedge env ticker data commkwargs s =
     (Inr (),
      register (hedges s) ticker
        (new_obj env Asset ticker (fill_OHLC env data) commkwargs (index s)) s)"

subsection \<open>Properties\<close>

text \<open>\<^verbatim>\<open>dt\<close> is \<^verbatim>\<open>self.__main[0]\<close>; \<^verbatim>\<open>datas\<close> is \<^verbatim>\<open>{**bases, **assets, **hedges}\<close>.\<close>

definition dt :: "('d, 'w) backtest \<Rightarrow> exn + date" where
  "dt s = Line_at0 (main s)"

definition datas :: "('d, 'w) backtest \<Rightarrow> (string \<times> ref) list" where
  "datas s = dict_merge (dict_merge (dicts s (bases s)) (dicts s (assets s))) (dicts s (hedges s))"

text \<open>
  \<^verbatim>\<open>bookname\<close>. An f-string prints \<^verbatim>\<open>None\<close> as \<^verbatim>\<open>None\<close>; \<^verbatim>\<open>if self.__hedge\<close> holds for a
  string that is not empty; \<^verbatim>\<open>mapper[_DEFAULT_HEDGE]\<close> raises for a key that is neither
  \<^verbatim>\<open>EXPO\<close> nor \<^verbatim>\<open>BETA\<close>.
\<close>

definition fmt :: "string option \<Rightarrow> string" where
  "fmt x = (case x of None \<Rightarrow> ''None'' | Some s \<Rightarrow> s)"

definition truthy :: "string option \<Rightarrow> bool" where
  "truthy x = (case x of None \<Rightarrow> False | Some s \<Rightarrow> s \<noteq> [])"

definition mapper :: "(string \<times> string) list" where
  "mapper = [(''EXPO'', ''/''), (''BETA'', ''#'')]"

definition bookname :: "('d, 'w, 'r) env \<Rightarrow> ('d, 'w) backtest \<Rightarrow> exn + string" where
  "bookname env s =
     (let book = fmt (factor s) @ ''-'' @ fmt (market s) @ ''-'' @ fmt (asset s) in
      if truthy (hedge s) then
        (case dict_get mapper (DEFAULT_HEDGE env) of
           None \<Rightarrow> Inl KeyError
         | Some sep \<Rightarrow> Inr (book @ sep @ fmt (hedge s)))
      else Inr book)"

subsection \<open>The run identity\<close>

definition opt_str :: "string option \<Rightarrow> pyval" where
  "opt_str x = (case x of None \<Rightarrow> PNone | Some s \<Rightarrow> PStr s)"

definition opt_ints :: "int list option \<Rightarrow> pyval" where
  "opt_ints x = (case x of None \<Rightarrow> PNone | Some ns \<Rightarrow> PList (map PInt ns))"

text \<open>The dict \<^verbatim>\<open>self.__hash\<close> of \<^verbatim>\<open>config_backtest\<close>, its twelve keys in the source's order.\<close>

definition config_hash :: "('d, 'w, 'r) env \<Rightarrow> ('d, 'w) backtest \<Rightarrow> (string \<times> pyval) list" where
  "config_hash env s =
     [(''factor'', opt_str (factor s)),
      (''market'', opt_str (market s)),
      (''asset'', opt_str (asset s)),
      (''hedge'', opt_str (hedge s)),
      (''base'', opt_str (base s)),
      (''hbase'', opt_str (hbase s)),
      (''vertices'', opt_ints (vertices s)),
      (''pipeline'', PStr (p_class (pipeline s))),
      (''model'', PStr (s_class (strategy s))),
      (''params'', PDict (s_params (strategy s))),
      (''budget'', DEFAULT_VOLATILITY env),
      (''buffer'', DEFAULT_BUFFER env)]"


text \<open>
  \<^verbatim>\<open>config_backtest\<close>: the hash and the uid are stored first; the record of properties
  reads \<^verbatim>\<open>self.bookname\<close> last, which may raise.
\<close>

definition config_backtest :: "('d, 'w, 'r) env \<Rightarrow> (('d, 'w) backtest, unit) action" where
  "config_backtest env s =
     (let h = config_hash env s;
          u = uuid3_dns env (py_str env h);
          s1 = s\<lparr>hash := Some h, uid := Some u\<rparr>
      in case bookname env s1 of
           Inl e \<Rightarrow> (Inl e, s1)
         | Inr b \<Rightarrow>
             (Inr (),
              s1\<lparr>properties := Some
                   \<lparr>m_hash = h, m_uid = u,
                    m_sdate = isoformat env (firstdate s1),
                    m_edate = isoformat env (lastdate s1),
                    m_updtime = now_iso env,
                    m_sizing = DEFAULT_SIZING env,
                    m_thresh = DEFAULT_THRESH env,
                    m_vparam = DEFAULT_VPARAM env,
                    m_bookname = b\<rparr>\<rparr>))"

subsection \<open>The run loop\<close>

text \<open>
  \<^verbatim>\<open>__advance_buffers\<close>: the main clock, the Broker, then every value of \<^verbatim>\<open>self.datas\<close>.
  \<open>Main_next\<close> and \<open>Data_next\<close> record an advance that took place. A registry only ever
  holds addresses of objects that exist; at any other address the model stops.
\<close>

definition main_next :: "(('d, 'w) backtest, unit) action" where
  "main_next s =
     (case Line_next (main s) of
        Inl e \<Rightarrow> (Inl e, s)
      | Inr l \<Rightarrow> (Inr (), s\<lparr>main := l, trace := trace s @ [Main_next]\<rparr>))"

definition obj_next :: "ref \<Rightarrow> (('d, 'w) backtest, unit) action" where
  "obj_next a s =
     (if a < length (objs s) then
        (case data_next (objs s ! a) of
           Inl e \<Rightarrow> (Inl e, s)
         | Inr d \<Rightarrow> (Inr (), s\<lparr>objs := (objs s)[a := d], trace := trace s @ [Data_next a]\<rparr>))
      else (Inl (External ''no object at this address''), s))"

fun advance_datas :: "ref list \<Rightarrow> (('d, 'w) backtest, unit) action" where
  "advance_datas [] s = (Inr (), s)"
| "advance_datas (a # as) s =
     (case obj_next a s of
        (Inl e, s') \<Rightarrow> (Inl e, s')
      | (Inr u, s') \<Rightarrow> advance_datas as s')"

definition advance_buffers :: "('d, 'w, 'r) env \<Rightarrow> (('d, 'w) backtest, unit) action" where
  "advance_buffers env =
     then_do main_next
       (then_do (call Broker_next (broker_next env))
          (\<lambda>s. advance_datas (dict_values (datas s)) s))"

text \<open>
  \<^verbatim>\<open>self.__hpipeline\<close> and \<^verbatim>\<open>self.__hstrategy\<close> exist only after \<^verbatim>\<open>config_hedge\<close>: reading
  them before raises \<^verbatim>\<open>AttributeError\<close>.
\<close>

definition hedge_pair ::
  "(callee \<Rightarrow> event) \<Rightarrow>
   (pipeline_obj \<Rightarrow> ('d, 'w) backtest \<Rightarrow> exn option \<times> 'w) \<Rightarrow>
   (strategy_obj \<Rightarrow> ('d, 'w) backtest \<Rightarrow> exn option \<times> 'w) \<Rightarrow>
   (('d, 'w) backtest, unit) action" where
  "hedge_pair ev pf sf =
     then_do
       (\<lambda>s. case hpipeline s of
               None \<Rightarrow> (Inl AttributeError, s)
             | Some hp \<Rightarrow> call (ev Hedge_pipeline) (pf hp) s)
       (\<lambda>s. case hstrategy s of
               None \<Rightarrow> (Inl AttributeError, s)
             | Some hs \<Rightarrow> call (ev Hedge_strategy) (sf hs) s)"

text \<open>The body of the \<^verbatim>\<open>while\<close> loop, up to the test of the cumulative return.\<close>

definition tick :: "('d, 'w, 'r) env \<Rightarrow> (('d, 'w) backtest, unit) action" where
  "tick env =
     then_do (advance_buffers env)
       (then_do (call Beg_of_period (beg_of_period env))
          (then_do (\<lambda>s. call (Next Primary_pipeline) (pipeline_next env (pipeline s)) s)
             (then_do (\<lambda>s. call (Next Primary_strategy) (strategy_next env (strategy s)) s)
                (then_do
                   (\<lambda>s. when_do (dicts s (hedges s) \<noteq> [])
                           (hedge_pair Next (pipeline_next env) (strategy_next env)) s)
                   (call End_of_period (end_of_period env))))))"

text \<open>What one pass through the body calls, when every call returns.\<close>

definition tick_events :: "('d, 'w) backtest \<Rightarrow> event list" where
  "tick_events s =
     [Main_next, Broker_next] @ map Data_next (dict_values (datas s)) @
     [Beg_of_period, Next Primary_pipeline, Next Primary_strategy] @
     (if dicts s (hedges s) \<noteq> [] then [Next Hedge_pipeline, Next Hedge_strategy] else []) @
     [End_of_period]"

text \<open>
  What each step leaves behind when it returns: needed already for the termination of
  the loop, which rests on the main clock's advance.
\<close>

lemma then_do_Inr:
  "then_do m k s = (Inr x, s') \<longleftrightarrow> (\<exists>s1. m s = (Inr (), s1) \<and> k s1 = (Inr x, s'))"
  by (auto simp: then_do_def split: prod.splits sum.splits)

lemma call_Inr:
  "call ev f s = (Inr u, s') \<Longrightarrow> \<exists>w. s' = s\<lparr>broker := w, trace := trace s @ [ev]\<rparr>"
  by (auto simp: call_def split: prod.splits option.splits)

lemma main_next_Inr:
  "main_next s = (Inr u, s') \<Longrightarrow>
     cursor (main s) + 1 < length (array (main s)) \<and>
     s' = s\<lparr>main := (main s)\<lparr>cursor := cursor (main s) + 1\<rparr>, trace := trace s @ [Main_next]\<rparr>"
  by (auto simp: main_next_def Line_next_def split: if_splits)

lemma obj_next_Inr:
  "obj_next a s = (Inr u, s') \<Longrightarrow>
     \<exists>os. s' = s\<lparr>objs := os, trace := trace s @ [Data_next a]\<rparr>"
  by (auto simp: obj_next_def split: if_splits sum.splits)

lemma advance_datas_Inr:
  "advance_datas as s = (Inr u, s') \<Longrightarrow>
     \<exists>os. s' = s\<lparr>objs := os, trace := trace s @ map Data_next as\<rparr>"
proof (induction as arbitrary: s)
  case Nil
  then show ?case by (auto intro: exI[of _ "objs s"])
next
  case (Cons a as)
  from Cons.prems obtain s1 where 1: "obj_next a s = (Inr (), s1)" and 2: "advance_datas as s1 = (Inr u, s')"
    by (auto split: prod.splits sum.splits)
  from obj_next_Inr[OF 1] obtain os1 where s1: "s1 = s\<lparr>objs := os1, trace := trace s @ [Data_next a]\<rparr>" by blast
  from Cons.IH[OF 2] obtain os where "s' = s1\<lparr>objs := os, trace := trace s1 @ map Data_next as\<rparr>" by blast
  with s1 show ?case by auto
qed

lemma advance_buffers_Inr:
  assumes "advance_buffers env s = (Inr u, s')"
  shows "cursor (main s) + 1 < length (array (main s)) \<and>
     (\<exists>os w. s' = s\<lparr>main := (main s)\<lparr>cursor := cursor (main s) + 1\<rparr>, objs := os, broker := w,
        trace := trace s @ [Main_next, Broker_next] @ map Data_next (dict_values (datas s))\<rparr>)"
proof -
  from assms obtain s1 s2 where 1: "main_next s = (Inr (), s1)"
    and 2: "call Broker_next (broker_next env) s1 = (Inr (), s2)"
    and 3: "advance_datas (dict_values (datas s2)) s2 = (Inr u, s')"
    by (auto simp: advance_buffers_def then_do_Inr)
  note m = main_next_Inr[OF 1]
  from call_Inr[OF 2] obtain w where s2: "s2 = s1\<lparr>broker := w, trace := trace s1 @ [Broker_next]\<rparr>" by blast
  from advance_datas_Inr[OF 3] obtain os where s': "s' = s2\<lparr>objs := os, trace := trace s2 @ map Data_next (dict_values (datas s2))\<rparr>" by blast
  have d: "datas s2 = datas s" using m s2 by (simp add: datas_def)
  have "s' = s\<lparr>main := (main s)\<lparr>cursor := cursor (main s) + 1\<rparr>, objs := os, broker := w,
        trace := trace s @ [Main_next, Broker_next] @ map Data_next (dict_values (datas s))\<rparr>"
    using m s2 s' d by simp
  with m show ?thesis by blast
qed

lemma hedge_pair_Inr:
  assumes "hedge_pair ev pf sf s = (Inr u, s')"
  shows "\<exists>w. s' = s\<lparr>broker := w, trace := trace s @ [ev Hedge_pipeline, ev Hedge_strategy]\<rparr>"
proof -
  from assms obtain s1 hp hs where hp: "hpipeline s = Some hp" and 1: "call (ev Hedge_pipeline) (pf hp) s = (Inr (), s1)"
    and hs: "hstrategy s1 = Some hs" and 2: "call (ev Hedge_strategy) (sf hs) s1 = (Inr u, s')"
    by (auto simp: hedge_pair_def then_do_Inr split: option.splits)
  from call_Inr[OF 1] call_Inr[OF 2] show ?thesis by auto
qed

lemma tick_Inr:
  assumes "tick env s = (Inr u, s')"
  shows "cursor (main s) + 1 < length (array (main s)) \<and>
     (\<exists>os w. s' = s\<lparr>main := (main s)\<lparr>cursor := cursor (main s) + 1\<rparr>, objs := os, broker := w,
        trace := trace s @ tick_events s\<rparr>)"
proof -
  from assms obtain s1 s2 s3 s4 s5 where 1: "advance_buffers env s = (Inr (), s1)"
    and 2: "call Beg_of_period (beg_of_period env) s1 = (Inr (), s2)"
    and 3: "call (Next Primary_pipeline) (pipeline_next env (pipeline s2)) s2 = (Inr (), s3)"
    and 4: "call (Next Primary_strategy) (strategy_next env (strategy s3)) s3 = (Inr (), s4)"
    and 5: "when_do (dicts s4 (hedges s4) \<noteq> []) (hedge_pair Next (pipeline_next env) (strategy_next env)) s4 = (Inr (), s5)"
    and 6: "call End_of_period (end_of_period env) s5 = (Inr u, s')"
    by (auto simp: tick_def then_do_Inr)
  note a = advance_buffers_Inr[OF 1]
  from a obtain os w1 where s1: "s1 = s\<lparr>main := (main s)\<lparr>cursor := cursor (main s) + 1\<rparr>, objs := os, broker := w1,
        trace := trace s @ [Main_next, Broker_next] @ map Data_next (dict_values (datas s))\<rparr>" by blast
  from call_Inr[OF 2] obtain w2 where s2: "s2 = s1\<lparr>broker := w2, trace := trace s1 @ [Beg_of_period]\<rparr>" by blast
  from call_Inr[OF 3] obtain w3 where s3: "s3 = s2\<lparr>broker := w3, trace := trace s2 @ [Next Primary_pipeline]\<rparr>" by blast
  from call_Inr[OF 4] obtain w4 where s4: "s4 = s3\<lparr>broker := w4, trace := trace s3 @ [Next Primary_strategy]\<rparr>" by blast
  have h4: "dicts s4 (hedges s4) = dicts s (hedges s)" using s1 s2 s3 s4 by simp
  have "\<exists>w5. s5 = s4\<lparr>broker := w5, trace := trace s4 @ (if dicts s (hedges s) \<noteq> [] then [Next Hedge_pipeline, Next Hedge_strategy] else [])\<rparr>"
  proof (cases "dicts s (hedges s) \<noteq> []")
    case True
    with 5 h4 have "hedge_pair Next (pipeline_next env) (strategy_next env) s4 = (Inr (), s5)" by (simp add: when_do_def)
    from hedge_pair_Inr[OF this] True show ?thesis by auto
  next
    case False
    with 5 h4 have "s5 = s4" by (simp add: when_do_def done_ok_def)
    with False show ?thesis by (auto intro: exI[of _ "broker s4"])
  qed
  then obtain w5 where s5: "s5 = s4\<lparr>broker := w5, trace := trace s4 @ (if dicts s (hedges s) \<noteq> [] then [Next Hedge_pipeline, Next Hedge_strategy] else [])\<rparr>" by blast
  from call_Inr[OF 6] obtain w6 where s6: "s' = s5\<lparr>broker := w6, trace := trace s5 @ [End_of_period]\<rparr>" by blast
  have "s' = s\<lparr>main := (main s)\<lparr>cursor := cursor (main s) + 1\<rparr>, objs := os, broker := w6,
        trace := trace s @ tick_events s\<rparr>"
    unfolding s6 s5 s4 s3 s2 s1 by (simp add: tick_events_def)
  with a show ?thesis by blast
qed

text \<open>
  \<^verbatim>\<open>while self.dt < self.__lastdate\<close>, with the \<^verbatim>\<open>break\<close> on the cumulative return. The
  loop ends because every pass that returns moves the main cursor one step towards the
  end of its array, and \<^verbatim>\<open>Line.next\<close> fails on the last position.
\<close>

function run_loop :: "('d, 'w, 'r::ord) env \<Rightarrow> (('d, 'w) backtest, unit) action" where
  "run_loop env s =
     (case dt s of
        Inl e \<Rightarrow> (Inl e, s)
      | Inr d \<Rightarrow>
          if d < lastdate s then
            (case tick env s of
               (Inl e, s') \<Rightarrow> (Inl e, s')
             | (Inr u, s') \<Rightarrow>
                 if cum_return env (broker s') < DEFAULT_MAX_LOSS env then (Inr (), s')
                 else run_loop env s')
          else (Inr (), s))"
  by pat_completeness auto
termination
proof (relation "measure (\<lambda>(env, s). length (array (main s)) - cursor (main s))")
  show "wf (measure (\<lambda>(env, s). length (array (main s)) - cursor (main s)))" by simp
next
  fix env :: "('d, 'w, 'r) env" and s :: "('d, 'w) backtest" and d x s' u
  assume "(x, s') = tick env s" and "x = Inr u"
  then have "tick env s = (Inr u, s')" by simp
  from tick_Inr[OF this] show "((env, s'), (env, s)) \<in> measure (\<lambda>(env, s). length (array (main s)) - cursor (main s))"
    by auto
qed

text \<open>The loop's equation is unfolded by hand, one pass at a time.\<close>

declare run_loop.simps [simp del]

text \<open>The four-field bundle \<^verbatim>\<open>run\<close> returns.\<close>

record 'w outcome =
  meta :: properties
  quotas :: pyval
  records :: pyval
  b_broker :: 'w

text \<open>
  \<^verbatim>\<open>run\<close>: \<^verbatim>\<open>None\<close> at once when no asset is registered; else the identity, the
  \<^verbatim>\<open>init\<close> calls, the loop, and the bundle.
\<close>

definition run ::
  "('d, 'w, 'r::ord) env \<Rightarrow> (('d, 'w) backtest, 'w outcome option) action" where
  "run env s =
     (if dicts s (assets s) = [] then (Inr None, s)
      else
        (case then_do (config_backtest env)
                (then_do (\<lambda>s. call (Init Primary_pipeline) (pipeline_init env (pipeline s)) s)
                   (then_do (\<lambda>s. call (Init Primary_strategy) (strategy_init env (strategy s)) s)
                      (then_do
                         (\<lambda>s. when_do (dicts s (hedges s) \<noteq> [])
                                 (hedge_pair Init (pipeline_init env) (strategy_init env)) s)
                         (run_loop env)))) s of
           (Inl e, s') \<Rightarrow> (Inl e, s')
         | (Inr u, s') \<Rightarrow>
             (case properties s' of
                None \<Rightarrow> (Inl AttributeError, s')
              | Some p \<Rightarrow>
                  (Inr (Some \<lparr>meta = p, quotas = broker_df env (broker s'),
                              records = broker_rec env (broker s'), b_broker = broker s'\<rparr>),
                   s'))))"

text \<open>The calls of \<^verbatim>\<open>run\<close> before the loop, when every call returns.\<close>

definition init_events :: "('d, 'w) backtest \<Rightarrow> event list" where
  "init_events s =
     [Init Primary_pipeline, Init Primary_strategy] @
     (if dicts s (hedges s) \<noteq> [] then [Init Hedge_pipeline, Init Hedge_strategy] else [])"

subsection \<open>Registrations after construction\<close>





section \<open>strategy.py\<close>

text \<open>
  What an indicator function returns: an array, or a \<^verbatim>\<open>DataFrame\<close> (its rows), of which
  \<^verbatim>\<open>Strategy.I\<close> takes \<^verbatim>\<open>ind.values.T\<close>.
\<close>

datatype 'v arr = Array "'v list" | Array2 "'v list list" | DataFrame "'v list list"

definition values_T :: "'v arr \<Rightarrow> 'v arr" where
  "values_T ind = (case ind of DataFrame rows \<Rightarrow> Array2 (transpose rows) | other \<Rightarrow> other)"

definition arr_len :: "'v arr \<Rightarrow> nat" where
  "arr_len a = (case a of Array xs \<Rightarrow> length xs | Array2 rows \<Rightarrow> length rows | DataFrame rows \<Rightarrow> length rows)"

text \<open>
  Modelled from the spec: \<^verbatim>\<open>Line(array=..., index=...)\<close> of \<^verbatim>\<open>utils/bases.py\<close>, absent:
  the lengths must match, else a shape error.
\<close>

record 'v ind_line =
  l_array :: "'v arr"
  l_index :: "date list"
  l_cursor :: nat

definition Line_of :: "nat \<Rightarrow> 'v arr \<Rightarrow> date list \<Rightarrow> exn + 'v ind_line" where
  "Line_of start a idx =
     (if arr_len a = length idx then Inr \<lparr>l_array = a, l_index = idx, l_cursor = start\<rparr>
      else Inl ShapeError)"

text \<open>The \<^verbatim>\<open>Strategy\<close> object of \<^verbatim>\<open>strategy.py\<close>, as its \<^verbatim>\<open>__init__\<close> builds it.\<close>

record ('b, 'ds, 'v) strategy_base =
  st_datas :: 'ds
  st_broker :: 'b
  indicators :: "(pyval \<times> 'v ind_line) list"

definition Strategy_init :: "'b \<Rightarrow> 'ds \<Rightarrow> ('b, 'ds, 'v) strategy_base" where
  "Strategy_init brk ds = \<lparr>st_datas = ds, st_broker = brk, indicators = []\<rparr>"

text \<open>
  An indicator function: its \<^verbatim>\<open>__name__\<close>, and what a call with keyword arguments does
  to whatever it can reach (\<open>'x\<close>) and returns or raises.
\<close>

record ('x, 'v) callable =
  f_name :: string
  f_call :: "(string \<times> pyval) list \<Rightarrow> 'x \<Rightarrow> (exn + 'v arr) \<times> 'x"

definition is_Exception :: "exn \<Rightarrow> bool" where
  "is_Exception e = (e \<noteq> Interrupt)"

definition hashable :: "pyval \<Rightarrow> bool" where
  "hashable v = (case v of PList xs \<Rightarrow> False | PDict kvs \<Rightarrow> False | other \<Rightarrow> True)"

text \<open>
  \<^verbatim>\<open>Strategy.I\<close>. The assertion comes first (assertions are on: the interpreter runs
  without \<^verbatim>\<open>-O\<close>). \<open>tuple_str\<close> prints \<^verbatim>\<open>tuple(params.items())\<close>, \<open>start\<close> is where
  a fresh Line's cursor stands. The result is the outcome, the strategy and what \<open>f\<close>
  could reach, as the call leaves them.
\<close>

definition I ::
  "nat \<Rightarrow> ((string \<times> pyval) list \<Rightarrow> string) \<Rightarrow> ('b, 'ds, 'v) strategy_base \<Rightarrow> 'd data_obj \<Rightarrow>
   ('x, 'v) callable \<Rightarrow> (string \<times> pyval) list \<Rightarrow> 'x \<Rightarrow>
   (exn + unit) \<times> ('b, 'ds, 'v) strategy_base \<times> 'x" where
  "I start tuple_str st data f params x =
     (if d_type data \<noteq> Asset then (Inl AssertionError, st, x)
      else
        let popped = (case dict_get params ''name'' of None \<Rightarrow> PNone | Some n \<Rightarrow> n);
            params' = filter (\<lambda>kv. fst kv \<noteq> ''name'') params;
            name = (if popped = PNone then PStr (f_name f @ tuple_str params') else popped)
        in case f_call f params' x of
             (Inl e, x') \<Rightarrow> (Inl (if is_Exception e then Exception e else e), st, x')
           | (Inr ind, x') \<Rightarrow>
               (case Line_of start (values_T ind) (array (d_lines data)) of
                  Inl e \<Rightarrow> (Inl e, st, x')
                | Inr l \<Rightarrow>
                    if hashable name
                    then (Inr (), st\<lparr>indicators := dict_update (indicators st) name l\<rparr>, x')
                    else (Inl TypeError, st, x')))"

section \<open>A test bench\<close>

text \<open>
  Stand-ins for the parameters, small enough to run: a Broker that counts the periods
  it closed, whose cumulative return loses ten points a period; collaborators that return
  at once; a string function and a hash that only need to be functions.
\<close>

definition demo_env :: "(unit, nat, int) env" where
  "demo_env =
     \<lparr>DEFAULT_BUFFER = PInt 200, DEFAULT_HEDGE = ''EXPO'', DEFAULT_SIZING = PStr ''EWMA'',
      DEFAULT_THRESH = PInt 0, DEFAULT_VPARAM = PInt 50, DEFAULT_MAX_LOSS = - 15,
      DEFAULT_VOLATILITY = PFloat 1 (- 3), DEFAULT_CARRY = ''CARRY'',
      DEFAULT_PAIRS = [''USDBRL'', ''EURBRL''], DEFAULT_ECHO = False,
      DEFAULT_MARKET = ''IBOV'',
      line_start = 0, fill_OHLC = (\<lambda>d. d),
      py_str = (\<lambda>h. concat (map fst h)),
      uuid3_dns = (\<lambda>n. of_nat (length n)),
      isoformat = (\<lambda>d. replicate d CHR ''d''), now_iso = ''now'',
      Broker_new = (\<lambda>idx echo. 0),
      broker_next = (\<lambda>s. (None, broker s)),
      beg_of_period = (\<lambda>s. (None, broker s)),
      end_of_period = (\<lambda>s. (None, broker s + 1)),
      cum_return = (\<lambda>w. - 10 * int w),
      broker_df = (\<lambda>w. PNone), broker_rec = (\<lambda>w. PNone),
      add_curr = (\<lambda>a s. (None, broker s)),
      add_carry = (\<lambda>a s. (None, broker s)),
      add_market = (\<lambda>a s. (None, broker s)),
      pipeline_init = (\<lambda>p s. (None, broker s)),
      pipeline_next = (\<lambda>p s. (None, broker s)),
      strategy_init = (\<lambda>p s. (None, broker s)),
      strategy_next = (\<lambda>p s. (None, broker s))\<rparr>"

definition demo_cfg :: config where
  "demo_cfg =
     \<lparr>factor = Some ''RISKPAR'', market = Some ''COMMODITIES'', asset = Some ''BIAU39'',
      hedge = Some ''DOL'', base = Some ''XAU'', hbase = Some ''USDBRL'', vertices = None\<rparr>"

definition demo_strategy :: klass where
  "demo_strategy = \<lparr>k_name = ''Riskpar_BuyNHold'', k_kind = Strategy_kind, k_params = []\<rparr>"

definition demo_pipeline :: klass where
  "demo_pipeline = \<lparr>k_name = ''Single'', k_kind = Pipeline_kind, k_params = []\<rparr>"

definition demo_calendar :: calendar where
  "demo_calendar = \<lparr>is_calendar = True, cal_index = [1, 2, 3, 4], cal_holidays = []\<rparr>"

text \<open>A fresh orchestrator over four trading days (the constructor does not raise here).\<close>

definition demo_new :: "(unit, nat) backtest" where
  "demo_new =
     (case Backtest_init demo_env demo_strategy demo_pipeline demo_calendar demo_cfg of
        Inr s \<Rightarrow> s)"

text \<open>The registrations of \<^verbatim>\<open>examples/single_receipts.py\<close>, without and with the hedge.\<close>

definition demo_primary :: "(unit, nat) backtest" where
  "demo_primary =
     snd (add_asset demo_env ''BIAU39'' () []
       (snd (add_base demo_env ''USDBRL'' ()
         (snd (add_base demo_env ''carry'' ()
           (snd (add_base demo_env ''XAU'' () demo_new)))))))"



text \<open>A hedge registered, no asset.\<close>

definition demo_no_asset :: "(unit, nat) backtest" where
  "demo_no_asset = snd (add_hedge demo_env ''DOLF21'' () [] demo_new)"

text \<open>One ticker registered twice: as a base, then as an asset.\<close>

definition demo_shadowed :: "(unit, nat) backtest" where
  "demo_shadowed =
     snd (add_asset demo_env ''X'' () [] (snd (add_base demo_env ''X'' () demo_new)))"

text \<open>An object of each kind, an indicator function that counts its calls, a strategy.\<close>

definition demo_base_obj :: "unit data_obj" where
  "demo_base_obj = new_obj demo_env Base ''XAU'' () [] [1, 2, 3, 4]"

definition demo_asset_obj :: "unit data_obj" where
  "demo_asset_obj = new_obj demo_env Asset ''BIAU39'' () [] [1, 2, 3, 4]"

definition demo_indicator :: "(nat, int) callable" where
  "demo_indicator =
     \<lparr>f_name = ''Buy_n_Hold'', f_call = (\<lambda>ps n. (Inr (Array [1, 1, 1, 1]), n + 1))\<rparr>"

definition demo_strategy_obj :: "(unit, unit, int) strategy_base" where
  "demo_strategy_obj = Strategy_init () ()"

text \<open>The bench again: a threshold that is never reached, and late registrations.\<close>

definition demo_patient :: "(unit, nat, int) env" where
  "demo_patient = demo_env\<lparr>DEFAULT_MAX_LOSS := - 100\<rparr>"


section \<open>The loop, one pass at a time\<close>

lemma run_loop_err:
  "dt s = Inl e \<Longrightarrow> run_loop env s = (Inl e, s)"
  by (subst run_loop.simps) simp

lemma run_loop_stop:
  "dt s = Inr d \<Longrightarrow> \<not> d < lastdate s \<Longrightarrow> run_loop env s = (Inr (), s)"
  by (subst run_loop.simps) simp

lemma run_loop_raise:
  "dt s = Inr d \<Longrightarrow> d < lastdate s \<Longrightarrow> tick env s = (Inl e, s') \<Longrightarrow>
   run_loop env s = (Inl e, s')"
  by (subst run_loop.simps) simp

lemma run_loop_break:
  "dt s = Inr d \<Longrightarrow> d < lastdate s \<Longrightarrow> tick env s = (Inr u, s') \<Longrightarrow>
   cum_return env (broker s') < DEFAULT_MAX_LOSS env \<Longrightarrow> run_loop env s = (Inr (), s')"
  by (subst run_loop.simps) simp

lemma run_loop_again:
  "dt s = Inr d \<Longrightarrow> d < lastdate s \<Longrightarrow> tick env s = (Inr u, s') \<Longrightarrow>
   \<not> cum_return env (broker s') < DEFAULT_MAX_LOSS env \<Longrightarrow> run_loop env s = run_loop env s'"
  by (subst run_loop.simps) simp

lemma tick_events_cong:
  "dicts s' = dicts s \<Longrightarrow> bases s' = bases s \<Longrightarrow> assets s' = assets s \<Longrightarrow>
   hedges s' = hedges s \<Longrightarrow> tick_events s' = tick_events s"
  by (simp add: tick_events_def datas_def)

text \<open>
  A loop that returns has made some number \<open>k\<close> of passes: the main cursor stands \<open>k\<close>
  steps further and still inside the index, the trace has grown by \<open>k\<close> times the calls
  of one pass, and nothing but the clock, the data objects, the Broker and the trace has
  changed.
\<close>

lemma run_loop_Inr:
  "run_loop env s = (Inr u, s') \<Longrightarrow>
     \<exists>k os w. cursor (main s) + k < length (array (main s)) \<and>
       s' = s\<lparr>main := (main s)\<lparr>cursor := cursor (main s) + k\<rparr>, objs := os, broker := w,
              trace := trace s @ concat (replicate k (tick_events s))\<rparr>"
proof (induction env s arbitrary: u s' rule: run_loop.induct)
  case (1 env s)
  show ?case
  proof (cases "dt s")
    case (Inl e)
    with "1.prems" show ?thesis by (simp add: run_loop_err)
  next
    case (Inr d)
    then have inr: "cursor (main s) + 0 < length (array (main s))"
      by (auto simp: dt_def Line_at0_def split: if_splits)
    show ?thesis
    proof (cases "d < lastdate s")
      case False
      with "1.prems" Inr have "s' = s" by (simp add: run_loop_stop)
      then have "s' = s\<lparr>main := (main s)\<lparr>cursor := cursor (main s) + 0\<rparr>, objs := objs s,
          broker := broker s, trace := trace s @ concat (replicate 0 (tick_events s))\<rparr>"
        by simp
      with inr show ?thesis by (intro exI conjI)
    next
      case True
      obtain r s1 where t: "tick env s = (r, s1)" by (cases "tick env s")
      show ?thesis
      proof (cases r)
        case (Inl e)
        with "1.prems" Inr True t show ?thesis by (simp add: run_loop_raise)
      next
        case r: (Inr v)
        with t have t': "tick env s = (Inr v, s1)" by simp
        from tick_Inr[OF t'] obtain os1 w1 where
          c1: "cursor (main s) + 1 < length (array (main s))" and
          s1: "s1 = s\<lparr>main := (main s)\<lparr>cursor := cursor (main s) + 1\<rparr>, objs := os1, broker := w1,
            trace := trace s @ tick_events s\<rparr>" by auto
        show ?thesis
        proof (cases "cum_return env (broker s1) < DEFAULT_MAX_LOSS env")
          case True
          with "1.prems" Inr \<open>d < lastdate s\<close> t' have "s' = s1" by (simp add: run_loop_break)
          with s1 have "s' = s\<lparr>main := (main s)\<lparr>cursor := cursor (main s) + 1\<rparr>, objs := os1,
              broker := w1, trace := trace s @ concat (replicate 1 (tick_events s))\<rparr>"
            by simp
          with c1 show ?thesis by (intro exI conjI)
        next
          case False
          with "1.prems" Inr \<open>d < lastdate s\<close> t' have rl: "run_loop env s1 = (Inr u, s')"
            by (simp add: run_loop_again)
          from "1.IH"[OF Inr \<open>d < lastdate s\<close> t'[symmetric] refl False rl]
          obtain k os w where k: "cursor (main s1) + k < length (array (main s1))" and
            s': "s' = s1\<lparr>main := (main s1)\<lparr>cursor := cursor (main s1) + k\<rparr>, objs := os,
                  broker := w, trace := trace s1 @ concat (replicate k (tick_events s1))\<rparr>"
            by auto
          have te: "tick_events s1 = tick_events s"
            unfolding s1 by (rule tick_events_cong) simp_all
          have "s' = s\<lparr>main := (main s)\<lparr>cursor := cursor (main s) + Suc k\<rparr>, objs := os,
                broker := w, trace := trace s @ concat (replicate (Suc k) (tick_events s))\<rparr>"
            unfolding s' te unfolding s1 by simp
          moreover have "cursor (main s) + Suc k < length (array (main s))" using k s1 by simp
          ultimately show ?thesis by (intro exI conjI)
        qed
      qed
    qed
  qed
qed

section \<open>The circuit breaker\<close>

text \<open>
  C3. Let \<open>s\<close> be the orchestrator at the head of any pass of the loop, the current date
  before the last one. If the pass returns \<open>s'\<close> and the Broker's cumulative return in
  \<open>s'\<close> is below the max-loss threshold, the loop returns at once, and what it returns is
  \<open>s'\<close> itself: the pass that was made stays made, and no call follows it.
\<close>

theorem max_loss_ends_loop:
  assumes "dt s = Inr d" and "d < lastdate s" and "tick env s = (Inr u, s')"
    and "cum_return env (broker s') < DEFAULT_MAX_LOSS env"
  shows "run_loop env s = (Inr (), s')"
  using assms by (subst run_loop.simps) simp

theorem max_loss_ends_loop_witness:
  "dt (snd (tick demo_env demo_primary)) = Inr 2 \<and>
   (2::nat) < lastdate (snd (tick demo_env demo_primary)) \<and>
   fst (tick demo_env (snd (tick demo_env demo_primary))) = Inr () \<and>
   cum_return demo_env (broker (snd (tick demo_env (snd (tick demo_env demo_primary)))))
     < DEFAULT_MAX_LOSS demo_env \<and>
   run_loop demo_env (snd (tick demo_env demo_primary))
     = (Inr (), snd (tick demo_env (snd (tick demo_env demo_primary))))"
proof -
  let ?s = "snd (tick demo_env demo_primary)"
  have 1: "dt ?s = Inr 2" by code_simp
  have 2: "(2::nat) < lastdate ?s" by code_simp
  have 3: "fst (tick demo_env ?s) = Inr ()" by code_simp
  then have t3: "tick demo_env ?s = (Inr (), snd (tick demo_env ?s))"
    by (metis prod.collapse)
  have 4: "cum_return demo_env (broker (snd (tick demo_env ?s))) < DEFAULT_MAX_LOSS demo_env"
    by code_simp
  from max_loss_ends_loop[OF 1 2 t3 4] 1 2 3 4 show ?thesis by simp
qed

section \<open>Running with no asset\<close>

text \<open>
  C4. When the asset registry is empty, \<^verbatim>\<open>run\<close> returns \<^verbatim>\<open>None\<close> and leaves the
  orchestrator exactly as it was: no call is recorded, the Broker, the clock and the
  Lines are untouched, whatever the rest of the configuration, a hedge registry that is
  not empty included.
\<close>

theorem run_without_assets:
  "dicts s (assets s) = [] \<Longrightarrow> run env s = (Inr None, s)"
  by (simp add: run_def)

theorem run_without_assets_witness:
  "dicts demo_no_asset (assets demo_no_asset) = [] \<and>
   dicts demo_no_asset (hedges demo_no_asset) \<noteq> [] \<and>
   run demo_env demo_no_asset = (Inr None, demo_no_asset)"
proof -
  have 1: "dicts demo_no_asset (assets demo_no_asset) = []" by code_simp
  have 2: "dicts demo_no_asset (hedges demo_no_asset) \<noteq> []" by code_simp
  from run_without_assets[OF 1] 1 2 show ?thesis by simp
qed

section \<open>Registering a base\<close>





section \<open>The book label\<close>

text \<open>
  C7. The book label is the factor, the market and the asset ticker joined by \<open>-\<close>; when
  a hedge ticker is configured, the separator of the hedge method (\<open>/\<close> for \<^verbatim>\<open>EXPO\<close>,
  \<open>#\<close> for \<^verbatim>\<open>BETA\<close>) and the hedge ticker follow. With factor \<^verbatim>\<open>RISKPAR\<close>, market
  \<^verbatim>\<open>COMMODITIES\<close>, asset \<^verbatim>\<open>BIAU39\<close> the label is \<^verbatim>\<open>RISKPAR-COMMODITIES-BIAU39/DOL\<close> for
  the hedge \<^verbatim>\<open>DOL\<close> under \<^verbatim>\<open>EXPO\<close>, and \<^verbatim>\<open>RISKPAR-COMMODITIES-BIAU39\<close> with no hedge.
\<close>

theorem bookname_label:
  "bookname env s =
     (if truthy (hedge s) then
        (if DEFAULT_HEDGE env = ''EXPO'' then
           Inr (fmt (factor s) @ ''-'' @ fmt (market s) @ ''-'' @ fmt (asset s) @ ''/'' @ fmt (hedge s))
         else if DEFAULT_HEDGE env = ''BETA'' then
           Inr (fmt (factor s) @ ''-'' @ fmt (market s) @ ''-'' @ fmt (asset s) @ ''#'' @ fmt (hedge s))
         else Inl KeyError)
      else Inr (fmt (factor s) @ ''-'' @ fmt (market s) @ ''-'' @ fmt (asset s))) \<and>
   bookname (env\<lparr>DEFAULT_HEDGE := ''EXPO''\<rparr>)
     (s\<lparr>factor := Some ''RISKPAR'', market := Some ''COMMODITIES'', asset := Some ''BIAU39'',
        hedge := Some ''DOL''\<rparr>) = Inr ''RISKPAR-COMMODITIES-BIAU39/DOL'' \<and>
   bookname env
     (s\<lparr>factor := Some ''RISKPAR'', market := Some ''COMMODITIES'', asset := Some ''BIAU39'',
        hedge := None\<rparr>) = Inr ''RISKPAR-COMMODITIES-BIAU39''"
  by (simp add: bookname_def mapper_def dict_get_def fmt_def truthy_def)

section \<open>Declaring an indicator\<close>

text \<open>
  C10. \<^verbatim>\<open>Strategy.I(data, f, **params)\<close> on a \<open>data\<close> whose type is not exactly
  \<^verbatim>\<open>Asset\<close> (a Base, a Hedge, anything else) raises \<^verbatim>\<open>AssertionError\<close> and leaves the
  strategy and everything \<open>f\<close> could reach as they were: \<open>f\<close> was not called. On an
  \<^verbatim>\<open>Asset\<close> the call does not end in \<^verbatim>\<open>AssertionError\<close>, whatever \<open>f\<close> does.
\<close>

theorem I_asserts_Asset:
  "(d_type data \<noteq> Asset \<longrightarrow>
      I start tuple_str st data f params x = (Inl AssertionError, st, x)) \<and>
   (d_type data = Asset \<longrightarrow>
      fst (I start tuple_str st data f params x) \<noteq> Inl AssertionError)"
  by (auto simp: I_def Let_def Line_of_def is_Exception_def split: prod.splits sum.splits if_splits)

theorem I_asserts_Asset_witness:
  "d_type demo_base_obj \<noteq> Asset \<and>
   I 0 (\<lambda>ps. ''()'') demo_strategy_obj demo_base_obj demo_indicator [] (0::nat)
     = (Inl AssertionError, demo_strategy_obj, 0) \<and>
   d_type demo_asset_obj = Asset \<and>
   fst (I 0 (\<lambda>ps. ''()'') demo_strategy_obj demo_asset_obj demo_indicator [] (0::nat))
     \<noteq> Inl AssertionError \<and>
   snd (snd (I 0 (\<lambda>ps. ''()'') demo_strategy_obj demo_asset_obj demo_indicator [] (0::nat))) = 1"
proof -
  have 1: "d_type demo_base_obj \<noteq> Asset" by code_simp
  have 2: "d_type demo_asset_obj = Asset" by code_simp
  have 3: "snd (snd (I 0 (\<lambda>ps. ''()'') demo_strategy_obj demo_asset_obj demo_indicator [] (0::nat))) = 1"
    by code_simp
  from I_asserts_Asset[of demo_base_obj 0 "\<lambda>ps. ''()''" demo_strategy_obj demo_indicator "[]" "0::nat"]
    I_asserts_Asset[of demo_asset_obj 0 "\<lambda>ps. ''()''" demo_strategy_obj demo_indicator "[]" "0::nat"]
    1 2 3
  show ?thesis by simp
qed

section \<open>The whole run\<close>

lemma config_backtest_Inr:
  "config_backtest env s = (Inr u, s') \<Longrightarrow> \<exists>h i p. s' = s\<lparr>hash := h, uid := i, properties := p\<rparr>"
  by (auto simp: config_backtest_def Let_def split: sum.splits)

lemma hedge_pair_configured:
  "hedge_pair ev pf sf s = (Inr u, s') \<Longrightarrow> hpipeline s \<noteq> None \<and> hstrategy s \<noteq> None"
  by (auto simp: hedge_pair_def then_do_Inr split: option.splits dest!: call_Inr)

lemma run_Inr:
  assumes "run env s = (Inr (Some b), s')"
  shows "\<exists>k. trace s' = trace s @ init_events s @ concat (replicate k (tick_events s)) \<and>
              cursor (main s') = cursor (main s) + k \<and>
              cursor (main s') < length (array (main s)) \<and>
              (dicts s (hedges s) \<noteq> [] \<longrightarrow> hpipeline s \<noteq> None \<and> hstrategy s \<noteq> None)"
proof -
  from assms have ne: "dicts s (assets s) \<noteq> []" by (auto simp: run_def split: if_splits)
  with assms obtain s0 s1 s2 s3 s4 where
    0: "config_backtest env s = (Inr (), s0)" and
    1: "call (Init Primary_pipeline) (pipeline_init env (pipeline s0)) s0 = (Inr (), s1)" and
    2: "call (Init Primary_strategy) (strategy_init env (strategy s1)) s1 = (Inr (), s2)" and
    3: "when_do (dicts s2 (hedges s2) \<noteq> [])
          (hedge_pair Init (pipeline_init env) (strategy_init env)) s2 = (Inr (), s3)" and
    4: "run_loop env s3 = (Inr (), s4)" and 5: "s' = s4"
    by (auto simp: run_def then_do_Inr split: prod.splits sum.splits option.splits)
  from config_backtest_Inr[OF 0] obtain h i p where
    s0: "s0 = s\<lparr>hash := h, uid := i, properties := p\<rparr>" by auto
  from call_Inr[OF 1] obtain w1 where
    s1: "s1 = s0\<lparr>broker := w1, trace := trace s0 @ [Init Primary_pipeline]\<rparr>" by auto
  from call_Inr[OF 2] obtain w2 where
    s2: "s2 = s1\<lparr>broker := w2, trace := trace s1 @ [Init Primary_strategy]\<rparr>" by auto
  have h2: "dicts s2 (hedges s2) = dicts s (hedges s)" "hpipeline s2 = hpipeline s"
    "hstrategy s2 = hstrategy s"
    unfolding s2 s1 s0 by simp_all
  have "(\<exists>w3. s3 = s2\<lparr>broker := w3, trace := trace s2 @
           (if dicts s (hedges s) \<noteq> [] then [Init Hedge_pipeline, Init Hedge_strategy] else [])\<rparr>) \<and>
        (dicts s (hedges s) \<noteq> [] \<longrightarrow> hpipeline s \<noteq> None \<and> hstrategy s \<noteq> None)"
  proof (cases "dicts s (hedges s) \<noteq> []")
    case True
    with 3 h2 have hp: "hedge_pair Init (pipeline_init env) (strategy_init env) s2 = (Inr (), s3)"
      by (simp add: when_do_def)
    from hedge_pair_Inr[OF hp] hedge_pair_configured[OF hp] True h2 show ?thesis by auto
  next
    case False
    with 3 h2 have "s3 = s2" by (simp add: when_do_def done_ok_def)
    then have "s3 = s2\<lparr>broker := broker s2, trace := trace s2 @
        (if dicts s (hedges s) \<noteq> [] then [Init Hedge_pipeline, Init Hedge_strategy] else [])\<rparr>"
      using False by simp
    then have "\<exists>w3. s3 = s2\<lparr>broker := w3, trace := trace s2 @
        (if dicts s (hedges s) \<noteq> [] then [Init Hedge_pipeline, Init Hedge_strategy] else [])\<rparr>"
      by (rule exI)
    with False show ?thesis by simp
  qed
  then obtain w3 where
    s3: "s3 = s2\<lparr>broker := w3, trace := trace s2 @
           (if dicts s (hedges s) \<noteq> [] then [Init Hedge_pipeline, Init Hedge_strategy] else [])\<rparr>"
    and cfg: "dicts s (hedges s) \<noteq> [] \<longrightarrow> hpipeline s \<noteq> None \<and> hstrategy s \<noteq> None" by auto
  from run_loop_Inr[OF 4] obtain k os w where
    k: "cursor (main s3) + k < length (array (main s3))" and
    s4: "s4 = s3\<lparr>main := (main s3)\<lparr>cursor := cursor (main s3) + k\<rparr>, objs := os, broker := w,
              trace := trace s3 @ concat (replicate k (tick_events s3))\<rparr>" by auto
  have te: "tick_events s3 = tick_events s"
    unfolding s3 s2 s1 s0 by (rule tick_events_cong) simp_all
  have m3: "main s3 = main s" unfolding s3 s2 s1 s0 by simp
  have t3: "trace s3 = trace s @ init_events s" unfolding s3 s2 s1 s0 by (simp add: init_events_def)
  have "trace s' = trace s @ init_events s @ concat (replicate k (tick_events s))"
    unfolding 5 s4 using te t3 by simp
  moreover have "cursor (main s') = cursor (main s) + k" unfolding 5 s4 using m3 by simp
  moreover have "cursor (main s') < length (array (main s))" unfolding 5 s4 using m3 k by simp
  ultimately show ?thesis using cfg by blast
qed

text \<open>
  The number of advances of a run that returns its bundle: at most the number of
  positions left after the cursor.
\<close>

lemma count_concat_replicate:
  "length (filter P (concat (replicate k xs))) = k * length (filter P xs)"
  by (induction k) simp_all

lemma main_next_in_tick: "length (filter (\<lambda>e. e = Main_next) (tick_events s)) = 1"
  by (simp add: tick_events_def filter_map comp_def)

lemma main_next_in_init: "filter (\<lambda>e. e = Main_next) (init_events s) = []"
  by (simp add: init_events_def)

lemma run_advances_bounded:
  assumes "run env s = (Inr (Some b), s')"
  shows "\<exists>k. k \<le> length (array (main s)) - 1 - cursor (main s) \<and>
              cursor (main s') = cursor (main s) + k \<and>
              length (filter (\<lambda>e. e = Main_next) (trace s')) =
                length (filter (\<lambda>e. e = Main_next) (trace s)) + k"
proof -
  from run_Inr[OF assms] obtain k where
    t: "trace s' = trace s @ init_events s @ concat (replicate k (tick_events s))" and
    c: "cursor (main s') = cursor (main s) + k" and
    b: "cursor (main s') < length (array (main s))" by auto
  have "length (filter (\<lambda>e. e = Main_next) (trace s')) =
          length (filter (\<lambda>e. e = Main_next) (trace s)) + k"
    unfolding t by (simp add: main_next_in_init count_concat_replicate main_next_in_tick)
  moreover have "k \<le> length (array (main s)) - 1 - cursor (main s)" using c b by simp
  ultimately show ?thesis using c by blast
qed

section \<open>The hedge pair\<close>




section \<open>The run identity\<close>





section \<open>Shared registries\<close>











section \<open>One ticker in two registries\<close>

text \<open>
  As long as no ticker stands in two registries, \<^verbatim>\<open>datas\<close> holds every registered
  object, bases first, then assets, then hedges, and a pass of the loop advances them all.
\<close>

lemma dict_update_fresh: "k \<notin> fst ` set d \<Longrightarrow> dict_update d k v = d @ [(k, v)]"
  by (induction d) auto

lemma dict_merge_distinct: "distinct (map fst (a @ b)) \<Longrightarrow> dict_merge a b = a @ b"
proof (induction b arbitrary: a)
  case Nil
  then show ?case by (simp add: dict_merge_def)
next
  case (Cons x b)
  from Cons.prems have fresh: "fst x \<notin> fst ` set a" by auto
  have step: "dict_merge a (x # b) = dict_merge (dict_update a (fst x) (snd x)) b"
    by (simp add: dict_merge_def)
  from Cons.prems have "distinct (map fst ((a @ [x]) @ b))" by simp
  from Cons.IH[OF this] step fresh show ?case by (simp add: dict_update_fresh)
qed

lemma datas_distinct:
  assumes "distinct (map fst (dicts s (bases s) @ dicts s (assets s) @ dicts s (hedges s)))"
  shows "datas s = dicts s (bases s) @ dicts s (assets s) @ dicts s (hedges s)"
proof -
  from assms have "distinct (map fst (dicts s (bases s) @ dicts s (assets s)))" by auto
  then have "dict_merge (dicts s (bases s)) (dicts s (assets s)) = dicts s (bases s) @ dicts s (assets s)"
    by (rule dict_merge_distinct)
  moreover from assms have "distinct (map fst ((dicts s (bases s) @ dicts s (assets s)) @ dicts s (hedges s)))"
    by simp
  ultimately show ?thesis by (simp add: datas_def dict_merge_distinct)
qed

text \<open>
  C2. On the bench, \<^verbatim>\<open>X\<close> is registered as a base and then as an asset. \<^verbatim>\<open>datas\<close> merges
  the registries by ticker, so it keeps one entry for \<^verbatim>\<open>X\<close>, the asset. A pass of the
  loop makes its calls in the fixed order and returns, but it advances the asset only:
  the main clock stands at 1, the asset's Lines at 1, the base's Lines still at 0.
\<close>

theorem shadowed_base_misses_advance:
  "dicts demo_shadowed (bases demo_shadowed) = [(''X'', 0)] \<and>
   dicts demo_shadowed (assets demo_shadowed) = [(''X'', 1)] \<and>
   datas demo_shadowed = [(''X'', 1)] \<and>
   fst (tick demo_env demo_shadowed) = Inr () \<and>
   trace (snd (tick demo_env demo_shadowed)) =
     [Main_next, Broker_next, Data_next 1, Beg_of_period,
      Next Primary_pipeline, Next Primary_strategy, End_of_period] \<and>
   cursor (main (snd (tick demo_env demo_shadowed))) = 1 \<and>
   map (\<lambda>d. (d_type d, cursor (d_lines d))) (objs (snd (tick demo_env demo_shadowed)))
     = [(Base, 0), (Asset, 1)]"
  by code_simp

text \<open>
  C8. The same orchestrator, run to the last of its four dates: the loop makes three
  advances, the main clock and the asset end at position 3, and the base registered
  under the same ticker has never moved.
\<close>

theorem shadowed_base_left_behind:
  "map_sum id (map_option b_broker) (fst (run demo_patient demo_shadowed)) = Inr (Some 3) \<and>
   length (index demo_shadowed) = 4 \<and>
   cursor (main (snd (run demo_patient demo_shadowed))) = 3 \<and>
   length (filter (\<lambda>e. e = Main_next) (trace (snd (run demo_patient demo_shadowed)))) = 3 \<and>
   map (\<lambda>d. (d_type d, cursor (d_lines d))) (objs (snd (run demo_patient demo_shadowed)))
     = [(Base, 0), (Asset, 3)]"
  by code_simp

end
